theory Spec2Isabelle
  imports Complex_Main
begin

section \<open>Numbers, points and path text\<close>

text \<open>
  The source is \<^verbatim>\<open>src/shape/Sector.js\<close>. Its numbers are JavaScript doubles; they are
  modelled as exact reals, so rounding, overflow and signed zero are outside the model.
  The one non-finite value the code can produce from finite inputs is kept: \<^verbatim>\<open>NaN\<close>,
  which \<^verbatim>\<open>Math.asin\<close> returns outside \<open>[-1, 1]\<close>. A value that may be \<^verbatim>\<open>NaN\<close> has type
  \<open>num\<close>, with \<open>None\<close> for \<^verbatim>\<open>NaN\<close>.
\<close>

type_synonym num = "real option"

type_synonym point = "num \<times> num"

text \<open>Arithmetic and comparison with \<^verbatim>\<open>NaN\<close>: it propagates, and every comparison with it is false.\<close>

definition js_sub :: "num \<Rightarrow> num \<Rightarrow> num" where
  "js_sub a b = (case a of None \<Rightarrow> None | Some u \<Rightarrow> (case b of None \<Rightarrow> None | Some v \<Rightarrow> Some (u - v)))"

definition js_add :: "num \<Rightarrow> num \<Rightarrow> num" where
  "js_add a b = (case a of None \<Rightarrow> None | Some u \<Rightarrow> (case b of None \<Rightarrow> None | Some v \<Rightarrow> Some (u + v)))"

definition js_lt :: "num \<Rightarrow> real \<Rightarrow> bool" where
  "js_lt a c = (case a of None \<Rightarrow> False | Some u \<Rightarrow> u < c)"

definition js_gt :: "num \<Rightarrow> real \<Rightarrow> bool" where
  "js_gt a c = (case a of None \<Rightarrow> False | Some u \<Rightarrow> u > c)"

text \<open>
  \<^verbatim>\<open>Math.asin(a / b)\<close>. For \<open>b = 0\<close> the quotient is an infinity or \<^verbatim>\<open>NaN\<close>, and
  \<^verbatim>\<open>Math.asin\<close> maps each of them, like every argument outside \<open>[-1, 1]\<close>, to \<^verbatim>\<open>NaN\<close>.
\<close>

definition Math_asin_div :: "real \<Rightarrow> real \<Rightarrow> num" where
  "Math_asin_div a b =
     (if b = 0 then None
      else if - 1 \<le> a / b \<and> a / b \<le> 1 then Some (arcsin (a / b))
      else None)"

text \<open>
  A template literal is a sequence of literal text and interpolated numbers. The text of
  a number is left to JavaScript's number formatting; the path keeps the number itself.
  \<open>+(b)\<close> on a boolean is \<open>of_bool b\<close>, the number 1 or 0.
\<close>

datatype seg = Lit string | Num num

abbreviation Fin :: "real \<Rightarrow> seg" where
  "Fin v \<equiv> Num (Some v)"

section \<open>The collaborators that are imported by the source\<close>

text \<open>
  Modelled from the spec: \<^verbatim>\<open>RADIAN\<close> of \<^verbatim>\<open>util/PolarUtils\<close> is not among the sources; the
  spec calls it the degree to radian conversion constant of the Coordinate Utility.
\<close>

definition RADIAN :: real where
  "RADIAN = pi / 180"

text \<open>
  Modelled from the spec: \<^verbatim>\<open>polarToCartesian\<close> of \<^verbatim>\<open>util/PolarUtils\<close> is not among the
  sources; the spec says it converts polar coordinates (center, radius, angle in degrees)
  to Cartesian points, and places the point at 0 degrees and radius 100 around the
  origin at (100, 0) and the one at 90 degrees at (0, 100).
\<close>

definition polarToCartesian :: "real \<Rightarrow> real \<Rightarrow> real \<Rightarrow> real \<Rightarrow> point" where
  "polarToCartesian cx cy radius angle =
     (Some (cx + cos (RADIAN * angle) * radius), Some (cy + sin (RADIAN * angle) * radius))"

text \<open>
  Modelled from the spec: \<^verbatim>\<open>mathSign\<close> of \<^verbatim>\<open>util/DataUtils\<close> is not among the sources; the
  spec says the Numeric Utility supplies a sign function returning -1, 0, or 1, which
  returns 0 only when its argument is exactly 0.
\<close>

definition mathSign :: "real \<Rightarrow> real" where
  "mathSign v = (if v = 0 then 0 else if v > 0 then 1 else - 1)"

text \<open>
  Modelled from the spec: \<^verbatim>\<open>getPercentValue\<close> of \<^verbatim>\<open>util/DataUtils\<close> is not among the
  sources; the spec says the Numeric Utility resolves a corner-radius value that may be
  absolute or a percentage of the available thickness into an absolute length, clamped to
  a base and bound. The value is the tagged union the spec describes; the call in the
  source passes the thickness, the base 0 and \<^verbatim>\<open>true\<close>.
\<close>

datatype cornerValue = Absolute real | Percent real

definition getPercentValue :: "cornerValue \<Rightarrow> real \<Rightarrow> real \<Rightarrow> bool \<Rightarrow> real" where
  "getPercentValue percent totalValue base validate =
     (let v = (case percent of Absolute a \<Rightarrow> a | Percent p \<Rightarrow> totalValue * p / 100)
      in if validate then max base (min v totalValue) else v)"

section \<open>Angle Normalizer\<close>

definition getDeltaAngle :: "real \<Rightarrow> real \<Rightarrow> real" where
  "getDeltaAngle startAngle endAngle =
     (let sign = mathSign (endAngle - startAngle);
          deltaAngle = min \<bar>endAngle - startAngle\<bar> 359.999
      in sign * deltaAngle)"

section \<open>Tangent-Circle Solver\<close>

record tangent =
  center :: point
  circleTangency :: point
  lineTangency :: point
  theta :: num

text \<open>
  When the inverse sine is \<^verbatim>\<open>NaN\<close>, so are \<open>theta\<close>, \<open>centerAngle\<close>, the radius of the
  line tangency, and with them both coordinates of the three points.
\<close>

definition getTangentCircle ::
    "real \<Rightarrow> real \<Rightarrow> real \<Rightarrow> real \<Rightarrow> real \<Rightarrow> bool \<Rightarrow> real \<Rightarrow> tangent" where
  "getTangentCircle cx cy radius angle sign isExternal cornerRadius =
     (let centerRadius = cornerRadius * (if isExternal then 1 else - 1) + radius
      in case Math_asin_div cornerRadius centerRadius of
           None \<Rightarrow>
             \<lparr>center = (None, None), circleTangency = (None, None),
              lineTangency = (None, None), theta = None\<rparr>
         | Some a \<Rightarrow>
             (let theta = a / RADIAN;
                  centerAngle = angle + sign * theta;
                  center = polarToCartesian cx cy centerRadius centerAngle;
                  circleTangency = polarToCartesian cx cy radius centerAngle;
                  lineTangency =
                    polarToCartesian cx cy (centerRadius * cos (theta * RADIAN)) angle
              in \<lparr>center = center, circleTangency = circleTangency,
                  lineTangency = lineTangency, theta = Some theta\<rparr>))"

section \<open>Sharp-Edge Path Builder\<close>

definition getSectorPath ::
    "real \<Rightarrow> real \<Rightarrow> real \<Rightarrow> real \<Rightarrow> real \<Rightarrow> real \<Rightarrow> seg list" where
  "getSectorPath cx cy innerRadius outerRadius startAngle endAngle =
     (let angle = getDeltaAngle startAngle endAngle;
          tempEndAngle = startAngle + angle;
          outerStartPoint = polarToCartesian cx cy outerRadius startAngle;
          outerEndPoint = polarToCartesian cx cy outerRadius tempEndAngle;
          path =
            [Lit ''M '', Num (fst outerStartPoint), Lit '','', Num (snd outerStartPoint),
             Lit ''\<newline>    A '', Fin outerRadius, Lit '','', Fin outerRadius,
             Lit '',0,\<newline>    '',
             Fin (of_bool (\<bar>angle\<bar> > 180)), Lit '','',
             Fin (of_bool (startAngle > tempEndAngle)), Lit '',\<newline>    '',
             Num (fst outerEndPoint), Lit '','', Num (snd outerEndPoint),
             Lit ''\<newline>  '']
      in if innerRadius > 0 then
           (let innerStartPoint = polarToCartesian cx cy innerRadius startAngle;
                innerEndPoint = polarToCartesian cx cy innerRadius tempEndAngle
            in path @
               [Lit ''L '', Num (fst innerEndPoint), Lit '','', Num (snd innerEndPoint),
                Lit ''\<newline>            A '', Fin innerRadius, Lit '','', Fin innerRadius,
                Lit '',0,\<newline>            '',
                Fin (of_bool (\<bar>angle\<bar> > 180)), Lit '','',
                Fin (of_bool (startAngle \<le> tempEndAngle)), Lit '',\<newline>            '',
                Num (fst innerStartPoint), Lit '','', Num (snd innerStartPoint),
                Lit '' Z''])
         else path @ [Lit ''L '', Fin cx, Lit '','', Fin cy, Lit '' Z''])"

section \<open>Rounded-Edge Path Builder\<close>

text \<open>
  The two outer calls of the solver leave \<^verbatim>\<open>isExternal\<close> out; the missing field is
  falsy, so the solver takes the factor \<open>- 1\<close>. The builder's local constants
  \<^verbatim>\<open>outerArcAngle\<close> and \<^verbatim>\<open>innerArcAngle\<close> are functions of its arguments here, so that
  statements about the builder can name them.
\<close>

definition outerArcAngle :: "real \<Rightarrow> real \<Rightarrow> real \<Rightarrow> real \<Rightarrow> real \<Rightarrow> real \<Rightarrow> num" where
  "outerArcAngle cx cy outerRadius cornerRadius startAngle endAngle =
     (let sign = mathSign (endAngle - startAngle);
          sot = theta (getTangentCircle cx cy outerRadius startAngle sign False cornerRadius);
          eot = theta (getTangentCircle cx cy outerRadius endAngle (- sign) False cornerRadius)
      in js_sub (js_sub (Some \<bar>startAngle - endAngle\<bar>) sot) eot)"

definition innerArcAngle :: "real \<Rightarrow> real \<Rightarrow> real \<Rightarrow> real \<Rightarrow> real \<Rightarrow> real \<Rightarrow> num" where
  "innerArcAngle cx cy innerRadius cornerRadius startAngle endAngle =
     (let sign = mathSign (endAngle - startAngle);
          sit = theta (getTangentCircle cx cy innerRadius startAngle sign True cornerRadius);
          eit = theta (getTangentCircle cx cy innerRadius endAngle (- sign) True cornerRadius)
      in js_sub (js_sub (Some \<bar>startAngle - endAngle\<bar>) sit) eit)"

definition getSectorWithCorner ::
    "real \<Rightarrow> real \<Rightarrow> real \<Rightarrow> real \<Rightarrow> real \<Rightarrow> bool \<Rightarrow> real \<Rightarrow> real \<Rightarrow> seg list" where
  "getSectorWithCorner cx cy innerRadius outerRadius cornerRadius forceCornerRadius
       startAngle endAngle =
     (let sign = mathSign (endAngle - startAngle);
          so = getTangentCircle cx cy outerRadius startAngle sign False cornerRadius;
          soct = circleTangency so; solt = lineTangency so;
          eo = getTangentCircle cx cy outerRadius endAngle (- sign) False cornerRadius;
          eoct = circleTangency eo; eolt = lineTangency eo;
          outerArc = outerArcAngle cx cy outerRadius cornerRadius startAngle endAngle
      in if js_lt outerArc 0 then
           (if forceCornerRadius then
              [Lit ''M '', Num (fst solt), Lit '','', Num (snd solt),
               Lit ''\<newline>        a'', Fin cornerRadius, Lit '','', Fin cornerRadius,
               Lit '',0,0,1,'', Fin (cornerRadius * 2), Lit '',0\<newline>        a'',
               Fin cornerRadius, Lit '','', Fin cornerRadius,
               Lit '',0,0,1,'', Fin (- cornerRadius * 2), Lit '',0\<newline>      '']
            else getSectorPath cx cy innerRadius outerRadius startAngle endAngle)
         else
           (let path =
              [Lit ''M '', Num (fst solt), Lit '','', Num (snd solt),
               Lit ''\<newline>    A'', Fin cornerRadius, Lit '','', Fin cornerRadius,
               Lit '',0,0,'', Fin (of_bool (sign < 0)), Lit '','',
               Num (fst soct), Lit '','', Num (snd soct),
               Lit ''\<newline>    A'', Fin outerRadius, Lit '','', Fin outerRadius,
               Lit '',0,'', Fin (of_bool (js_gt outerArc 180)), Lit '','',
               Fin (of_bool (sign < 0)), Lit '','',
               Num (fst eoct), Lit '','', Num (snd eoct),
               Lit ''\<newline>    A'', Fin cornerRadius, Lit '','', Fin cornerRadius,
               Lit '',0,0,'', Fin (of_bool (sign < 0)), Lit '','',
               Num (fst eolt), Lit '','', Num (snd eolt),
               Lit ''\<newline>  '']
            in if innerRadius > 0 then
                 (let si = getTangentCircle cx cy innerRadius startAngle sign True cornerRadius;
                      sict = circleTangency si; silt = lineTangency si;
                      ei = getTangentCircle cx cy innerRadius endAngle (- sign) True
                             cornerRadius;
                      eict = circleTangency ei; eilt = lineTangency ei;
                      innerArc =
                        innerArcAngle cx cy innerRadius cornerRadius startAngle endAngle
                  in if js_lt innerArc 0 then
                       path @ [Lit ''L'', Fin cx, Lit '','', Fin cy, Lit ''Z'']
                     else
                       path @
                       [Lit ''L'', Num (fst eilt), Lit '','', Num (snd eilt),
                        Lit ''\<newline>      A'', Fin cornerRadius, Lit '','', Fin cornerRadius,
                        Lit '',0,0,'', Fin (of_bool (sign < 0)), Lit '','',
                        Num (fst eict), Lit '','', Num (snd eict),
                        Lit ''\<newline>      A'', Fin innerRadius, Lit '','', Fin innerRadius,
                        Lit '',0,'', Fin (of_bool (js_gt innerArc 180)), Lit '','',
                        Fin (of_bool (sign > 0)), Lit '','',
                        Num (fst sict), Lit '','', Num (snd sict),
                        Lit ''\<newline>      A'', Fin cornerRadius, Lit '','', Fin cornerRadius,
                        Lit '',0,0,'', Fin (of_bool (sign < 0)), Lit '','',
                        Num (fst silt), Lit '','', Num (snd silt), Lit ''Z''])
               else path @ [Lit ''L'', Fin cx, Lit '','', Fin cy, Lit ''Z'']))"

section \<open>Sector Facade\<close>

text \<open>
  \<^verbatim>\<open>render\<close> returns \<^verbatim>\<open>null\<close> (here \<open>None\<close>) or a \<^verbatim>\<open>path\<close> element whose \<^verbatim>\<open>d\<close>
  attribute is the path built; the class name and the presentation and event attributes
  of the element do not depend on the geometry and are left out.
\<close>

definition Sector_render ::
    "real \<Rightarrow> real \<Rightarrow> real \<Rightarrow> real \<Rightarrow> cornerValue \<Rightarrow> bool \<Rightarrow> real \<Rightarrow> real \<Rightarrow> seg list option" where
  "Sector_render cx cy innerRadius outerRadius cornerRadius forceCornerRadius
       startAngle endAngle =
     (if outerRadius < innerRadius \<or> startAngle = endAngle then None
      else
        (let deltaRadius = outerRadius - innerRadius;
             cr = getPercentValue cornerRadius deltaRadius 0 True
         in if cr > 0 \<and> \<bar>startAngle - endAngle\<bar> < 360 then
              Some (getSectorWithCorner cx cy innerRadius outerRadius
                      (min cr (deltaRadius / 2)) forceCornerRadius startAngle endAngle)
            else Some (getSectorPath cx cy innerRadius outerRadius startAngle endAngle)))"

section \<open>Reading a path as drawing commands\<close>

text \<open>
  What a renderer reads in the path text: command letters, each followed by its numbers,
  with blanks, line breaks and commas as separators. A literal digit is a number of its
  own (the templates only hold the single digits 0 and 1); an interpolated number is one
  token whatever its text. The reader gives \<open>None\<close> on a digit or number that directly
  follows another, on any other character, and on a letter with the wrong count of
  numbers.
\<close>

datatype cmd =
    MoveTo num num
  | ArcTo num num num num num num num
  | ArcBy num num num num num num num
  | LineTo num num
  | ClosePath

datatype item = Ch char | Nm num

fun items :: "seg list \<Rightarrow> item list" where
  "items [] = []"
| "items (Lit s # r) = map Ch s @ items r"
| "items (Num v # r) = Nm v # items r"

datatype tok = Letter char | Val num

definition digit :: "char \<Rightarrow> real option" where
  "digit c = (let n = of_char c :: nat in if 48 \<le> n \<and> n \<le> 57 then Some (real (n - 48)) else None)"

fun lex :: "bool \<Rightarrow> item list \<Rightarrow> tok list option" where
  "lex prev [] = Some []"
| "lex prev (Nm v # r) = (if prev then None else map_option ((#) (Val v)) (lex True r))"
| "lex prev (Ch c # r) =
     (if c \<in> set '' ,\<newline>'' then lex False r
      else if c \<in> set ''MAaLZ'' then map_option ((#) (Letter c)) (lex False r)
      else (case digit c of
              None \<Rightarrow> None
            | Some d \<Rightarrow> if prev then None else map_option ((#) (Val (Some d))) (lex True r)))"

fun chunks :: "tok list \<Rightarrow> num list \<times> (char \<times> num list) list" where
  "chunks [] = ([], [])"
| "chunks (Val v # ts) = (case chunks ts of (vs, cs) \<Rightarrow> (v # vs, cs))"
| "chunks (Letter c # ts) = (case chunks ts of (vs, cs) \<Rightarrow> ([], (c, vs) # cs))"

fun command :: "char \<Rightarrow> num list \<Rightarrow> cmd option" where
  "command c [] = (if c = CHR ''Z'' then Some ClosePath else None)"
| "command c [x, y] =
     (if c = CHR ''M'' then Some (MoveTo x y)
      else if c = CHR ''L'' then Some (LineTo x y) else None)"
| "command c [rx, ry, rot, large, sweep, x, y] =
     (if c = CHR ''A'' then Some (ArcTo rx ry rot large sweep x y)
      else if c = CHR ''a'' then Some (ArcBy rx ry rot large sweep x y) else None)"
| "command c vs = None"

fun commands :: "(char \<times> num list) list \<Rightarrow> cmd list option" where
  "commands [] = Some []"
| "commands ((c, vs) # r) =
     (case command c vs of None \<Rightarrow> None | Some k \<Rightarrow> map_option ((#) k) (commands r))"

definition read_path :: "seg list \<Rightarrow> cmd list option" where
  "read_path p =
     (case lex False (items p) of
        None \<Rightarrow> None
      | Some ts \<Rightarrow> (case chunks ts of ([], cs) \<Rightarrow> commands cs | (v # vs, cs) \<Rightarrow> None))"

text \<open>
  The points a path visits, in order: \<open>M\<close>, \<open>L\<close> and \<open>A\<close> go to the point they name,
  the relative arc \<open>a\<close> moves by its last two numbers from the current point, \<open>Z\<close>
  returns to the point of the last \<open>M\<close>.
\<close>

fun pen :: "point \<Rightarrow> point \<Rightarrow> cmd list \<Rightarrow> point list" where
  "pen start cur [] = []"
| "pen start cur (MoveTo x y # r) = (x, y) # pen (x, y) (x, y) r"
| "pen start cur (LineTo x y # r) = (x, y) # pen start (x, y) r"
| "pen start cur (ArcTo rx ry rot large sweep x y # r) = (x, y) # pen start (x, y) r"
| "pen start cur (ArcBy rx ry rot large sweep dx dy # r) =
     (js_add (fst cur) dx, js_add (snd cur) dy)
       # pen start (js_add (fst cur) dx, js_add (snd cur) dy) r"
| "pen start cur (ClosePath # r) = start # pen start start r"

definition vertices :: "cmd list \<Rightarrow> point list" where
  "vertices cs = pen (None, None) (None, None) cs"

text \<open>A point at distance \<open>\<bar>r\<bar>\<close> from \<open>c\<close>; a point with a \<^verbatim>\<open>NaN\<close> coordinate is on no circle.\<close>

definition on_circle :: "real \<times> real \<Rightarrow> real \<Rightarrow> point \<Rightarrow> bool" where
  "on_circle c r p =
     (case p of
        (Some x, Some y) \<Rightarrow> (x - fst c)\<^sup>2 + (y - snd c)\<^sup>2 = r\<^sup>2
      | _ \<Rightarrow> False)"

fun is_MoveTo :: "cmd \<Rightarrow> bool" where
  "is_MoveTo (MoveTo x y) = True"
| "is_MoveTo c = False"

text \<open>
  A single closed contour: one move-to, at the head, and then either a final \<open>Z\<close> or a
  last point that is the (finite) first point again.
\<close>

definition closed_contour :: "cmd list \<Rightarrow> bool" where
  "closed_contour cs =
     (case cs of
        [] \<Rightarrow> False
      | c # r \<Rightarrow>
          is_MoveTo c \<and> \<not> list_ex is_MoveTo r \<and> r \<noteq> [] \<and>
          (last r = ClosePath \<or>
           (case hd (vertices cs) of
              (Some x, Some y) \<Rightarrow> last (vertices cs) = (Some x, Some y)
            | _ \<Rightarrow> False)))"

section \<open>The facade's validity check\<close>


section \<open>What the builders draw\<close>

lemma read_getSectorWithCorner:
  "read_path (getSectorWithCorner cx cy innerRadius outerRadius cornerRadius forceCornerRadius
       startAngle endAngle) =
     (let sign = mathSign (endAngle - startAngle);
          so = getTangentCircle cx cy outerRadius startAngle sign False cornerRadius;
          eo = getTangentCircle cx cy outerRadius endAngle (- sign) False cornerRadius;
          si = getTangentCircle cx cy innerRadius startAngle sign True cornerRadius;
          ei = getTangentCircle cx cy innerRadius endAngle (- sign) True cornerRadius;
          outerArc = outerArcAngle cx cy outerRadius cornerRadius startAngle endAngle;
          innerArc = innerArcAngle cx cy innerRadius cornerRadius startAngle endAngle;
          c = Some cornerRadius; f = Some (of_bool (sign < 0));
          outer =
            [MoveTo (fst (lineTangency so)) (snd (lineTangency so)),
             ArcTo c c (Some 0) (Some 0) f
               (fst (circleTangency so)) (snd (circleTangency so)),
             ArcTo (Some outerRadius) (Some outerRadius) (Some 0)
               (Some (of_bool (js_gt outerArc 180))) f
               (fst (circleTangency eo)) (snd (circleTangency eo)),
             ArcTo c c (Some 0) (Some 0) f
               (fst (lineTangency eo)) (snd (lineTangency eo))]
      in if js_lt outerArc 0 then
           (if forceCornerRadius then
              Some [MoveTo (fst (lineTangency so)) (snd (lineTangency so)),
                    ArcBy c c (Some 0) (Some 0) (Some 1) (Some (cornerRadius * 2)) (Some 0),
                    ArcBy c c (Some 0) (Some 0) (Some 1) (Some (- cornerRadius * 2)) (Some 0)]
            else read_path (getSectorPath cx cy innerRadius outerRadius startAngle endAngle))
         else if innerRadius > 0 \<and> \<not> js_lt innerArc 0 then
           Some (outer @
             [LineTo (fst (lineTangency ei)) (snd (lineTangency ei)),
              ArcTo c c (Some 0) (Some 0) f
                (fst (circleTangency ei)) (snd (circleTangency ei)),
              ArcTo (Some innerRadius) (Some innerRadius) (Some 0)
                (Some (of_bool (js_gt innerArc 180))) (Some (of_bool (sign > 0)))
                (fst (circleTangency si)) (snd (circleTangency si)),
              ArcTo c c (Some 0) (Some 0) f
                (fst (lineTangency si)) (snd (lineTangency si)),
              ClosePath])
         else Some (outer @ [LineTo (Some cx) (Some cy), ClosePath]))"
  by (simp add: getSectorWithCorner_def Let_def read_path_def digit_def)

text \<open>
  C3. The Sharp-Edge Path Builder's output reads as: a move to the outer start point; an
  outer arc of radius \<open>outerRadius\<close> whose large-arc flag is 1 iff \<open>\<bar>deltaAngle\<bar> > 180\<close>
  and whose sweep flag is 1 iff \<open>startAngle > tempEndAngle\<close>; then, when
  \<open>innerRadius > 0\<close>, a line to the inner end point, an inner arc with sweep flag 1 iff
  \<open>startAngle \<le> tempEndAngle\<close> and a close; otherwise a line to the center and a close.
  For center (0, 0), radii 0 and 100, angles 0 and 90 and corner radius 0 the facade's
  path reads \<open>M 100,0 A 100,100,0,0,0,0,100 L 0,0 Z\<close>.
\<close>

theorem C3_sharp_path_commands:
  "read_path (getSectorPath cx cy innerRadius outerRadius startAngle endAngle) =
     (let deltaAngle = getDeltaAngle startAngle endAngle;
          tempEndAngle = startAngle + deltaAngle;
          outerStart = polarToCartesian cx cy outerRadius startAngle;
          outerEnd = polarToCartesian cx cy outerRadius tempEndAngle;
          innerStart = polarToCartesian cx cy innerRadius startAngle;
          innerEnd = polarToCartesian cx cy innerRadius tempEndAngle
      in Some
        ([MoveTo (fst outerStart) (snd outerStart),
          ArcTo (Some outerRadius) (Some outerRadius) (Some 0)
            (Some (of_bool (\<bar>deltaAngle\<bar> > 180))) (Some (of_bool (startAngle > tempEndAngle)))
            (fst outerEnd) (snd outerEnd)] @
         (if innerRadius > 0 then
            [LineTo (fst innerEnd) (snd innerEnd),
             ArcTo (Some innerRadius) (Some innerRadius) (Some 0)
               (Some (of_bool (\<bar>deltaAngle\<bar> > 180)))
               (Some (of_bool (startAngle \<le> tempEndAngle)))
               (fst innerStart) (snd innerStart),
             ClosePath]
          else [LineTo (Some cx) (Some cy), ClosePath])))
   \<and> Option.bind (Sector_render 0 0 0 100 (Absolute 0) forceCornerRadius 0 90) read_path =
       Some [MoveTo (Some 100) (Some 0),
             ArcTo (Some 100) (Some 100) (Some 0) (Some 0) (Some 0) (Some 0) (Some 100),
             LineTo (Some 0) (Some 0), ClosePath]"
proof
  show "read_path (getSectorPath cx cy innerRadius outerRadius startAngle endAngle) =
     (let deltaAngle = getDeltaAngle startAngle endAngle;
          tempEndAngle = startAngle + deltaAngle;
          outerStart = polarToCartesian cx cy outerRadius startAngle;
          outerEnd = polarToCartesian cx cy outerRadius tempEndAngle;
          innerStart = polarToCartesian cx cy innerRadius startAngle;
          innerEnd = polarToCartesian cx cy innerRadius tempEndAngle
      in Some
        ([MoveTo (fst outerStart) (snd outerStart),
          ArcTo (Some outerRadius) (Some outerRadius) (Some 0)
            (Some (of_bool (\<bar>deltaAngle\<bar> > 180))) (Some (of_bool (startAngle > tempEndAngle)))
            (fst outerEnd) (snd outerEnd)] @
         (if innerRadius > 0 then
            [LineTo (fst innerEnd) (snd innerEnd),
             ArcTo (Some innerRadius) (Some innerRadius) (Some 0)
               (Some (of_bool (\<bar>deltaAngle\<bar> > 180)))
               (Some (of_bool (startAngle \<le> tempEndAngle)))
               (fst innerStart) (snd innerStart),
             ClosePath]
          else [LineTo (Some cx) (Some cy), ClosePath])))"
    by (simp add: getSectorPath_def Let_def read_path_def digit_def polarToCartesian_def)
  show "Option.bind (Sector_render 0 0 0 100 (Absolute 0) forceCornerRadius 0 90) read_path =
       Some [MoveTo (Some 100) (Some 0),
             ArcTo (Some 100) (Some 100) (Some 0) (Some 0) (Some 0) (Some 0) (Some 100),
             LineTo (Some 0) (Some 0), ClosePath]"
    by (simp add: Sector_render_def getPercentValue_def getSectorPath_def Let_def read_path_def digit_def polarToCartesian_def
         getDeltaAngle_def mathSign_def RADIAN_def)
qed

section \<open>Angle normalisation and the full turn\<close>

text \<open>
  C2. The Angle Normalizer returns \<open>sign (endAngle - startAngle)\<close> times the smaller of
  \<open>\<bar>endAngle - startAngle\<bar>\<close> and 359.999, where the sign is 0 only for a difference of
  exactly 0. So, for radii the facade accepts, the angles 0 and 360 give the sharp-edged
  path of a full sector: a move to the outer point at 0 degrees and an outer arc with
  large-arc flag 1 to the outer point at 359.999 degrees, then the way back and a close.
  The angles 0 and 0 give no geometry: the two outcomes differ.
\<close>

theorem C2_delta_angle_full_turn:
  assumes "innerRadius \<le> outerRadius"
  shows "getDeltaAngle startAngle endAngle =
           mathSign (endAngle - startAngle) * min \<bar>endAngle - startAngle\<bar> 359.999
       \<and> (mathSign (endAngle - startAngle) = 0) = (endAngle - startAngle = 0)
       \<and> Sector_render cx cy innerRadius outerRadius cornerRadius forceCornerRadius 0 360 =
           Some (getSectorPath cx cy innerRadius outerRadius 0 360)
       \<and> getDeltaAngle 0 360 = 359.999
       \<and> read_path (getSectorPath cx cy innerRadius outerRadius 0 360) =
           Some
             ([MoveTo (fst (polarToCartesian cx cy outerRadius 0))
                      (snd (polarToCartesian cx cy outerRadius 0)),
               ArcTo (Some outerRadius) (Some outerRadius) (Some 0) (Some 1) (Some 0)
                 (fst (polarToCartesian cx cy outerRadius 359.999))
                 (snd (polarToCartesian cx cy outerRadius 359.999))] @
              (if innerRadius > 0 then
                 [LineTo (fst (polarToCartesian cx cy innerRadius 359.999))
                         (snd (polarToCartesian cx cy innerRadius 359.999)),
                  ArcTo (Some innerRadius) (Some innerRadius) (Some 0) (Some 1) (Some 1)
                    (fst (polarToCartesian cx cy innerRadius 0))
                    (snd (polarToCartesian cx cy innerRadius 0)),
                  ClosePath]
               else [LineTo (Some cx) (Some cy), ClosePath]))
       \<and> Sector_render cx cy innerRadius outerRadius cornerRadius forceCornerRadius 0 0 = None
       \<and> Sector_render cx cy innerRadius outerRadius cornerRadius forceCornerRadius 0 360 \<noteq>
           Sector_render cx cy innerRadius outerRadius cornerRadius forceCornerRadius 0 0"
proof -
  have delta: "getDeltaAngle 0 360 = 359.999"
    by (simp add: getDeltaAngle_def mathSign_def Let_def)
  have path: "read_path (getSectorPath cx cy innerRadius outerRadius 0 360) =
           Some
             ([MoveTo (fst (polarToCartesian cx cy outerRadius 0))
                      (snd (polarToCartesian cx cy outerRadius 0)),
               ArcTo (Some outerRadius) (Some outerRadius) (Some 0) (Some 1) (Some 0)
                 (fst (polarToCartesian cx cy outerRadius 359.999))
                 (snd (polarToCartesian cx cy outerRadius 359.999))] @
              (if innerRadius > 0 then
                 [LineTo (fst (polarToCartesian cx cy innerRadius 359.999))
                         (snd (polarToCartesian cx cy innerRadius 359.999)),
                  ArcTo (Some innerRadius) (Some innerRadius) (Some 0) (Some 1) (Some 1)
                    (fst (polarToCartesian cx cy innerRadius 0))
                    (snd (polarToCartesian cx cy innerRadius 0)),
                  ClosePath]
               else [LineTo (Some cx) (Some cy), ClosePath]))"
    unfolding getSectorPath_def Let_def delta
    by (simp add: read_path_def digit_def polarToCartesian_def)
  have rest: "getDeltaAngle startAngle endAngle =
           mathSign (endAngle - startAngle) * min \<bar>endAngle - startAngle\<bar> 359.999
       \<and> (mathSign (endAngle - startAngle) = 0) = (endAngle - startAngle = 0)
       \<and> Sector_render cx cy innerRadius outerRadius cornerRadius forceCornerRadius 0 360 =
           Some (getSectorPath cx cy innerRadius outerRadius 0 360)
       \<and> Sector_render cx cy innerRadius outerRadius cornerRadius forceCornerRadius 0 0 = None"
    using assms by (simp add: getDeltaAngle_def mathSign_def Sector_render_def Let_def)
  from rest delta path show ?thesis by simp
qed

theorem C2_delta_angle_full_turn_witness:
  "(0::real) \<le> 100
   \<and> getDeltaAngle 10 (- 500) = - 359.999
   \<and> Sector_render 0 0 0 100 (Absolute 0) False 0 360 = Some (getSectorPath 0 0 0 100 0 360)
   \<and> read_path (getSectorPath 0 0 0 100 0 360) =
       Some [MoveTo (Some 100) (Some 0),
             ArcTo (Some 100) (Some 100) (Some 0) (Some 1) (Some 0)
               (fst (polarToCartesian 0 0 100 359.999)) (snd (polarToCartesian 0 0 100 359.999)),
             LineTo (Some 0) (Some 0), ClosePath]
   \<and> Sector_render 0 0 0 100 (Absolute 0) False 0 0 = None"
  using C2_delta_angle_full_turn [where innerRadius = 0 and outerRadius = 100
      and startAngle = 10 and endAngle = "- 500" and cx = 0 and cy = 0
      and cornerRadius = "Absolute 0" and forceCornerRadius = False]
  by (simp add: mathSign_def polarToCartesian_def RADIAN_def)

section \<open>The tangent circle\<close>

text \<open>
  C5. In the Tangent-Circle Solver, with
  \<open>centerRadius = radius + cornerRadius * (if isExternal then 1 else - 1)\<close>: \<open>theta\<close> is
  the inverse sine of \<open>cornerRadius / centerRadius\<close> in degrees, the circle-tangency point
  is the polar point at \<open>radius\<close> and angle \<open>angle + sign * theta\<close>, and the line-tangency
  point is the polar point at radius \<open>centerRadius * cos theta\<close> (\<open>theta\<close> taken in
  radians) and angle \<open>angle\<close>. Where the inverse sine has no value, all of them are
  \<^verbatim>\<open>NaN\<close>.
\<close>

theorem C5_tangent_circle:
  assumes "centerRadius = radius + cornerRadius * (if isExternal then 1 else - 1)"
      and "t = getTangentCircle cx cy radius angle sign isExternal cornerRadius"
      and "th = arcsin (cornerRadius / centerRadius) * 180 / pi"
  shows "(centerRadius \<noteq> 0 \<and> \<bar>cornerRadius / centerRadius\<bar> \<le> 1 \<longrightarrow>
            theta t = Some th
          \<and> circleTangency t = polarToCartesian cx cy radius (angle + sign * th)
          \<and> lineTangency t = polarToCartesian cx cy (centerRadius * cos (th * pi / 180)) angle)
       \<and> (centerRadius = 0 \<or> \<bar>cornerRadius / centerRadius\<bar> > 1 \<longrightarrow>
            theta t = None \<and> circleTangency t = (None, None) \<and> lineTangency t = (None, None))"
proof -
  have cr: "cornerRadius * (if isExternal then 1 else - 1) + radius = centerRadius"
    using assms(1) by simp
  have inside: "theta t = Some th
      \<and> circleTangency t = polarToCartesian cx cy radius (angle + sign * th)
      \<and> lineTangency t = polarToCartesian cx cy (centerRadius * cos (th * pi / 180)) angle"
    if "centerRadius \<noteq> 0" and "\<bar>cornerRadius / centerRadius\<bar> \<le> 1"
  proof -
    have "Math_asin_div cornerRadius centerRadius = Some (arcsin (cornerRadius / centerRadius))"
      using that unfolding Math_asin_div_def abs_le_iff by auto
    then show ?thesis
      unfolding assms(2) assms(3) getTangentCircle_def cr
      by (simp add: Let_def RADIAN_def)
  qed
  have outside: "theta t = None \<and> circleTangency t = (None, None)
      \<and> lineTangency t = (None, None)"
    if "centerRadius = 0 \<or> \<bar>cornerRadius / centerRadius\<bar> > 1"
  proof -
    have "Math_asin_div cornerRadius centerRadius = None"
      using that unfolding Math_asin_div_def abs_le_iff by auto
    then show ?thesis
      unfolding assms(2) getTangentCircle_def cr by (simp add: Let_def)
  qed
  from inside outside show ?thesis by blast
qed

theorem C5_tangent_circle_witness:
  "theta (getTangentCircle 0 0 100 30 1 False 50) = Some 90
   \<and> circleTangency (getTangentCircle 0 0 100 30 1 False 50) = polarToCartesian 0 0 100 120
   \<and> lineTangency (getTangentCircle 0 0 100 30 1 False 50) = polarToCartesian 0 0 0 30
   \<and> theta (getTangentCircle 0 0 100 30 1 False 80) = None"
  using C5_tangent_circle [where centerRadius = 50 and radius = 100 and cornerRadius = 50
      and isExternal = False and cx = 0 and cy = 0 and angle = 30 and sign = 1
      and t = "getTangentCircle 0 0 100 30 1 False 50" and th = 90]
    C5_tangent_circle [where centerRadius = 20 and radius = 100 and cornerRadius = 80
      and isExternal = False and cx = 0 and cy = 0 and angle = 30 and sign = 1
      and t = "getTangentCircle 0 0 100 30 1 False 80" and th = "arcsin 4 * 180 / pi"]
  by simp

section \<open>The clamp of the corner radius\<close>

text \<open>
  C7. For \<open>outerRadius \<ge> innerRadius\<close>, the corner radius the facade passes to the
  Rounded-Edge Path Builder is at most \<open>(outerRadius - innerRadius) / 2\<close>; asking for a
  corner radius of 1000 between the radii 0 and 100 gives the same result as asking
  for 50.
\<close>

theorem C7_corner_radius_clamped:
  assumes "innerRadius \<le> outerRadius" and "startAngle \<noteq> endAngle"
      and "cr = getPercentValue cornerRadius (outerRadius - innerRadius) 0 True"
      and "passed = min cr ((outerRadius - innerRadius) / 2)"
  shows "passed \<le> (outerRadius - innerRadius) / 2
       \<and> Sector_render cx cy innerRadius outerRadius cornerRadius forceCornerRadius
            startAngle endAngle =
          Some (if cr > 0 \<and> \<bar>startAngle - endAngle\<bar> < 360
                then getSectorWithCorner cx cy innerRadius outerRadius passed
                       forceCornerRadius startAngle endAngle
                else getSectorPath cx cy innerRadius outerRadius startAngle endAngle)
       \<and> Sector_render cx cy 0 100 (Absolute 1000) forceCornerRadius startAngle endAngle =
          Sector_render cx cy 0 100 (Absolute 50) forceCornerRadius startAngle endAngle"
proof (intro conjI)
  show "passed \<le> (outerRadius - innerRadius) / 2"
    unfolding assms(4) by (rule min.cobounded2)
  show "Sector_render cx cy innerRadius outerRadius cornerRadius forceCornerRadius
            startAngle endAngle =
          Some (if cr > 0 \<and> \<bar>startAngle - endAngle\<bar> < 360
                then getSectorWithCorner cx cy innerRadius outerRadius passed
                       forceCornerRadius startAngle endAngle
                else getSectorPath cx cy innerRadius outerRadius startAngle endAngle)"
    using assms(1,2) unfolding assms(3,4) Sector_render_def by (simp add: Let_def)
  show "Sector_render cx cy 0 100 (Absolute 1000) forceCornerRadius startAngle endAngle =
          Sector_render cx cy 0 100 (Absolute 50) forceCornerRadius startAngle endAngle"
    by (simp add: Sector_render_def Let_def getPercentValue_def)
qed

theorem C7_corner_radius_clamped_witness:
  "Sector_render 0 0 0 100 (Absolute 1000) False 0 90 =
     Some (getSectorWithCorner 0 0 0 100 50 False 0 90)
   \<and> Sector_render 0 0 0 100 (Absolute 1000) False 0 90 =
     Sector_render 0 0 0 100 (Absolute 50) False 0 90"
  using C7_corner_radius_clamped [where innerRadius = 0 and outerRadius = 100
      and startAngle = 0 and endAngle = 90 and cornerRadius = "Absolute 1000"
      and cr = 100 and passed = 50 and cx = 0 and cy = 0 and forceCornerRadius = False]
  by (auto simp add: getPercentValue_def)

section \<open>Values of the solver\<close>

text \<open>
  The solver at two concrete ratios: a corner radius of half the outer radius gives the
  ratio 1 and 90 degrees; a third of it gives the ratio \<open>1 / 2\<close> and 30 degrees; a
  smaller ratio gives less and a larger one more, the inverse sine being increasing. A
  defined \<open>theta\<close> comes with finite tangency points.
\<close>

lemma arcsin_half: "arcsin (1 / 2) = pi / 6"
proof -
  have "arcsin (sin (pi / 6)) = pi / 6"
    by (rule arcsin_sin) (use pi_gt_zero in auto)
  then show ?thesis by (simp add: sin_30)
qed

lemma theta_half:
  "theta (getTangentCircle cx cy 100 a sg False 50) = Some 90"
  by (simp add: getTangentCircle_def Math_asin_div_def Let_def RADIAN_def)

lemma lineTangency_half:
  "lineTangency (getTangentCircle cx cy 100 a sg False 50) = (Some cx, Some cy)"
  by (simp add: getTangentCircle_def Math_asin_div_def Let_def RADIAN_def polarToCartesian_def)

lemma outerArcAngle_half:
  "outerArcAngle cx cy 100 50 s e = Some (\<bar>s - e\<bar> - 180)"
  by (simp add: outerArcAngle_def Let_def theta_half js_sub_def)

lemma theta_finite_points:
  assumes "theta (getTangentCircle cx cy radius angle sg ext c) = Some t"
  shows "\<exists>x y. lineTangency (getTangentCircle cx cy radius angle sg ext c) = (Some x, Some y)"
    and "\<exists>x y. circleTangency (getTangentCircle cx cy radius angle sg ext c) = (Some x, Some y)"
  using assms
  by (cases "Math_asin_div c (c * (if ext then 1 else - 1) + radius)";
      simp add: getTangentCircle_def Let_def polarToCartesian_def)+

lemma outerArc_negative_finite:
  assumes "js_lt (outerArcAngle cx cy outerRadius c s e) 0"
  shows "\<exists>t. theta (getTangentCircle cx cy outerRadius s (mathSign (e - s)) False c) = Some t"
  using assms
  by (auto simp add: outerArcAngle_def Let_def js_lt_def js_sub_def split: option.splits)

lemma theta_third_outer:
  "theta (getTangentCircle cx cy 90 a sg False 30) = Some 30"
  by (simp add: getTangentCircle_def Math_asin_div_def Let_def RADIAN_def arcsin_half)

lemma theta_third_inner:
  "theta (getTangentCircle cx cy 30 a sg True 30) = Some 30"
  by (simp add: getTangentCircle_def Math_asin_div_def Let_def RADIAN_def arcsin_half)

lemma theta_outer_small:
  "\<exists>t. theta (getTangentCircle cx cy 100 a sg False 30) = Some t \<and> 0 < t \<and> t < 30"
proof -
  have lt: "arcsin (3 / 7) < arcsin (1 / 2)"
    by (rule arcsin_less_arcsin) simp_all
  have gt: "arcsin 0 < arcsin (3 / 7)"
    by (rule arcsin_less_arcsin) simp_all
  have "theta (getTangentCircle cx cy 100 a sg False 30) = Some (arcsin (3 / 7) / RADIAN)"
    by (simp add: getTangentCircle_def Math_asin_div_def Let_def)
  moreover have "arcsin (3 / 7) / RADIAN < 30"
    using lt pi_gt_zero unfolding arcsin_half RADIAN_def by (simp add: field_simps)
  moreover have "0 < arcsin (3 / 7) / RADIAN"
    using gt pi_gt_zero unfolding RADIAN_def by simp
  ultimately show ?thesis by blast
qed

lemma theta_inner_large:
  "\<exists>t. theta (getTangentCircle cx cy 10 a sg True 30) = Some t \<and> 30 < t"
proof -
  have gt: "arcsin (1 / 2) < arcsin (3 / 4)"
    by (rule arcsin_less_arcsin) simp_all
  have "theta (getTangentCircle cx cy 10 a sg True 30) = Some (arcsin (3 / 4) / RADIAN)"
    by (simp add: getTangentCircle_def Math_asin_div_def Let_def)
  moreover have "30 < arcsin (3 / 4) / RADIAN"
    using gt pi_gt_zero unfolding arcsin_half RADIAN_def by (simp add: field_simps)
  ultimately show ?thesis by blast
qed

section \<open>An outer arc too short for its corners\<close>

lemma circle_centre_unique:
  fixes x y a b r :: real
  assumes p: "(x - a)\<^sup>2 + (y - b)\<^sup>2 = r\<^sup>2"
      and q: "(x + r * 2 - a)\<^sup>2 + (y - b)\<^sup>2 = r\<^sup>2"
  shows "a = x + r \<and> b = y"
proof -
  have "(x + r * 2 - a)\<^sup>2 - (x - a)\<^sup>2 = 0"
    using p q by simp
  then have prod: "r * (x + r - a) = 0"
    by (simp add: power2_eq_square algebra_simps)
  have a: "a = x + r"
  proof (cases "r = 0")
    case True
    with p have "(x - a)\<^sup>2 + (y - b)\<^sup>2 = 0" by simp
    then have "x - a = 0" by (simp add: sum_power2_eq_zero_iff)
    with True show ?thesis by simp
  next
    case False
    with prod show ?thesis by simp
  qed
  have "(y - b)\<^sup>2 = 0"
    using p unfolding a by (simp add: power2_eq_square algebra_simps)
  then show ?thesis using a by simp
qed

text \<open>
  C4 (as amended). When \<open>outerArcAngle\<close> is negative: without \<open>forceCornerRadius\<close> the
  Rounded-Edge Path Builder returns the Sharp-Edge Path Builder's path for the same
  sector; with it, the path is a move to the start line-tangency point \<open>(sx, sy)\<close>
  followed by two relative arcs of radius \<open>cornerRadius\<close>, the first by
  \<open>(2 * cornerRadius, 0)\<close> and the second back by \<open>(- 2 * cornerRadius, 0)\<close>. Each arc
  spans a diameter, so the two are the halves of the circle of radius \<open>cornerRadius\<close>
  through the start line-tangency point whose centre is \<open>(sx + cornerRadius, sy)\<close>, the
  only centre at that distance from the points the path visits, and the contour ends
  where it began.
\<close>

theorem C4_short_outer_arc:
  assumes "js_lt (outerArcAngle cx cy outerRadius cornerRadius startAngle endAngle) 0"
  shows "getSectorWithCorner cx cy innerRadius outerRadius cornerRadius False
           startAngle endAngle
         = getSectorPath cx cy innerRadius outerRadius startAngle endAngle
       \<and> (\<exists>sx sy.
            lineTangency (getTangentCircle cx cy outerRadius startAngle
                (mathSign (endAngle - startAngle)) False cornerRadius) = (Some sx, Some sy)
          \<and> (let c = Some cornerRadius;
                  cmds = [MoveTo (Some sx) (Some sy),
                          ArcBy c c (Some 0) (Some 0) (Some 1) (Some (cornerRadius * 2)) (Some 0),
                          ArcBy c c (Some 0) (Some 0) (Some 1) (Some (- cornerRadius * 2)) (Some 0)]
              in read_path (getSectorWithCorner cx cy innerRadius outerRadius cornerRadius True
                              startAngle endAngle) = Some cmds
               \<and> vertices cmds =
                   [(Some sx, Some sy), (Some (sx + cornerRadius * 2), Some sy), (Some sx, Some sy)]
               \<and> list_all (on_circle (sx + cornerRadius, sy) cornerRadius) (vertices cmds)
               \<and> (\<forall>a b. list_all (on_circle (a, b) cornerRadius) (vertices cmds) \<longrightarrow>
                      (a, b) = (sx + cornerRadius, sy))
               \<and> closed_contour cmds))"
proof -
  obtain t where "theta (getTangentCircle cx cy outerRadius startAngle
      (mathSign (endAngle - startAngle)) False cornerRadius) = Some t"
    using outerArc_negative_finite [OF assms] by blast
  then obtain sx sy where solt: "lineTangency (getTangentCircle cx cy outerRadius startAngle
      (mathSign (endAngle - startAngle)) False cornerRadius) = (Some sx, Some sy)"
    using theta_finite_points(1) by blast
  have sharp: "getSectorWithCorner cx cy innerRadius outerRadius cornerRadius False
           startAngle endAngle
         = getSectorPath cx cy innerRadius outerRadius startAngle endAngle"
    using assms by (simp add: getSectorWithCorner_def Let_def)
  have rd: "read_path (getSectorWithCorner cx cy innerRadius outerRadius cornerRadius True
        startAngle endAngle) =
      Some [MoveTo (Some sx) (Some sy),
            ArcBy (Some cornerRadius) (Some cornerRadius) (Some 0) (Some 0) (Some 1)
              (Some (cornerRadius * 2)) (Some 0),
            ArcBy (Some cornerRadius) (Some cornerRadius) (Some 0) (Some 0) (Some 1)
              (Some (- cornerRadius * 2)) (Some 0)]"
    using assms solt by (simp add: read_getSectorWithCorner Let_def)
  have vs: "vertices [MoveTo (Some sx) (Some sy),
            ArcBy (Some cornerRadius) (Some cornerRadius) (Some 0) (Some 0) (Some 1)
              (Some (cornerRadius * 2)) (Some 0),
            ArcBy (Some cornerRadius) (Some cornerRadius) (Some 0) (Some 0) (Some 1)
              (Some (- cornerRadius * 2)) (Some 0)] =
        [(Some sx, Some sy), (Some (sx + cornerRadius * 2), Some sy), (Some sx, Some sy)]"
    by (simp add: vertices_def js_add_def)
  have circ: "list_all (on_circle (sx + cornerRadius, sy) cornerRadius)
      [(Some sx, Some sy), (Some (sx + cornerRadius * 2), Some sy), (Some sx, Some sy)]"
    by (simp add: on_circle_def power2_eq_square)
  have closed: "closed_contour [MoveTo (Some sx) (Some sy),
            ArcBy (Some cornerRadius) (Some cornerRadius) (Some 0) (Some 0) (Some 1)
              (Some (cornerRadius * 2)) (Some 0),
            ArcBy (Some cornerRadius) (Some cornerRadius) (Some 0) (Some 0) (Some 1)
              (Some (- cornerRadius * 2)) (Some 0)]"
    unfolding closed_contour_def vs by simp
  have uniq: "\<forall>a b. list_all (on_circle (a, b) cornerRadius)
        [(Some sx, Some sy), (Some (sx + cornerRadius * 2), Some sy), (Some sx, Some sy)] \<longrightarrow>
      (a, b) = (sx + cornerRadius, sy)"
    using circle_centre_unique [of sx _ sy _ cornerRadius] by (auto simp add: on_circle_def)
  have "lineTangency (getTangentCircle cx cy outerRadius startAngle
                (mathSign (endAngle - startAngle)) False cornerRadius) = (Some sx, Some sy)
          \<and> (let c = Some cornerRadius;
                  cmds = [MoveTo (Some sx) (Some sy),
                          ArcBy c c (Some 0) (Some 0) (Some 1) (Some (cornerRadius * 2)) (Some 0),
                          ArcBy c c (Some 0) (Some 0) (Some 1) (Some (- cornerRadius * 2)) (Some 0)]
              in read_path (getSectorWithCorner cx cy innerRadius outerRadius cornerRadius True
                              startAngle endAngle) = Some cmds
               \<and> vertices cmds =
                   [(Some sx, Some sy), (Some (sx + cornerRadius * 2), Some sy), (Some sx, Some sy)]
               \<and> list_all (on_circle (sx + cornerRadius, sy) cornerRadius) (vertices cmds)
               \<and> (\<forall>a b. list_all (on_circle (a, b) cornerRadius) (vertices cmds) \<longrightarrow>
                      (a, b) = (sx + cornerRadius, sy))
               \<and> closed_contour cmds)"
    unfolding Let_def vs using solt rd circ uniq closed by blast
  then show ?thesis using sharp by blast
qed

text \<open>The theorem at the radii 0 and 100, corner radius 50 and angles 0 and 90.\<close>

theorem C4_short_outer_arc_witness:
  "js_lt (outerArcAngle 0 0 100 50 0 90) 0
   \<and> getSectorWithCorner 0 0 0 100 50 False 0 90 = getSectorPath 0 0 0 100 0 90
   \<and> read_path (getSectorWithCorner 0 0 0 100 50 True 0 90) =
       Some [MoveTo (Some 0) (Some 0),
             ArcBy (Some 50) (Some 50) (Some 0) (Some 0) (Some 1) (Some 100) (Some 0),
             ArcBy (Some 50) (Some 50) (Some 0) (Some 0) (Some 1) (Some (- 100)) (Some 0)]"
proof -
  have neg: "js_lt (outerArcAngle 0 0 100 50 0 90) 0"
    by (simp add: outerArcAngle_half js_lt_def)
  show ?thesis
    using neg C4_short_outer_arc [OF neg, of 0]
    by (auto simp add: lineTangency_half mathSign_def Let_def)
qed

text \<open>
  C4 as stated places the centre of that circle at the start line-tangency point. At the
  same input this point is \<open>(0, 0)\<close>, the path visits \<open>(0, 0)\<close>, \<open>(100, 0)\<close> and
  \<open>(0, 0)\<close>, and none of them is at distance 50 from it.
\<close>

theorem C4_circle_centre_counterexample:
  "Sector_render 0 0 0 100 (Absolute 50) True 0 90 =
     Some (getSectorWithCorner 0 0 0 100 50 True 0 90)
   \<and> js_lt (outerArcAngle 0 0 100 50 0 90) 0
   \<and> lineTangency (getTangentCircle 0 0 100 0 (mathSign (90 - 0)) False 50) = (Some 0, Some 0)
   \<and> read_path (getSectorWithCorner 0 0 0 100 50 True 0 90) =
       Some [MoveTo (Some 0) (Some 0),
             ArcBy (Some 50) (Some 50) (Some 0) (Some 0) (Some 1) (Some 100) (Some 0),
             ArcBy (Some 50) (Some 50) (Some 0) (Some 0) (Some 1) (Some (- 100)) (Some 0)]
   \<and> \<not> list_ex (on_circle (0, 0) 50)
         (vertices [MoveTo (Some 0) (Some 0),
             ArcBy (Some 50) (Some 50) (Some 0) (Some 0) (Some 1) (Some 100) (Some 0),
             ArcBy (Some 50) (Some 50) (Some 0) (Some 0) (Some 1) (Some (- 100)) (Some 0)])"
proof (intro conjI)
  show "Sector_render 0 0 0 100 (Absolute 50) True 0 90 =
     Some (getSectorWithCorner 0 0 0 100 50 True 0 90)"
    by (simp add: Sector_render_def getPercentValue_def Let_def)
  show neg: "js_lt (outerArcAngle 0 0 100 50 0 90) 0"
    by (simp add: outerArcAngle_half js_lt_def)
  show "lineTangency (getTangentCircle 0 0 100 0 (mathSign (90 - 0)) False 50) = (Some 0, Some 0)"
    by (rule lineTangency_half)
  show "read_path (getSectorWithCorner 0 0 0 100 50 True 0 90) =
       Some [MoveTo (Some 0) (Some 0),
             ArcBy (Some 50) (Some 50) (Some 0) (Some 0) (Some 1) (Some 100) (Some 0),
             ArcBy (Some 50) (Some 50) (Some 0) (Some 0) (Some 1) (Some (- 100)) (Some 0)]"
    using neg by (simp add: read_getSectorWithCorner Let_def lineTangency_half)
  show "\<not> list_ex (on_circle (0, 0) 50)
         (vertices [MoveTo (Some 0) (Some 0),
             ArcBy (Some 50) (Some 50) (Some 0) (Some 0) (Some 1) (Some 100) (Some 0),
             ArcBy (Some 50) (Some 50) (Some 0) (Some 0) (Some 1) (Some (- 100)) (Some 0)])"
    by (simp add: vertices_def js_add_def on_circle_def)
qed

section \<open>The inner boundary with rounded corners\<close>

text \<open>
  C6. In the Rounded-Edge Path Builder with \<open>innerRadius > 0\<close> and
  \<open>outerArcAngle \<ge> 0\<close>, where \<open>outerArcAngle\<close> is \<open>\<bar>startAngle - endAngle\<bar>\<close> less the
  \<open>theta\<close> of the two outer corners and \<open>innerArcAngle\<close> is \<open>\<bar>startAngle - endAngle\<bar>\<close>
  less the \<open>theta\<close> of the two inner corners: after the three outer arcs, if
  \<open>innerArcAngle\<close> is negative the path is closed by a line to the center; otherwise the
  inner boundary is a line and three arcs, the corner arcs with sweep flag 1 iff
  \<open>sign < 0\<close> and the main inner arc with sweep flag 1 iff \<open>sign > 0\<close>, followed by a
  close. The outer main arc has sweep flag 1 iff \<open>sign < 0\<close>, the opposite one whenever
  the two angles differ.
\<close>

theorem C6_inner_boundary:
  assumes "innerRadius > 0"
      and "outerArcAngle cx cy outerRadius cornerRadius startAngle endAngle = Some outerArc"
      and "outerArc \<ge> 0"
  shows
    "(let sign = mathSign (endAngle - startAngle);
          so = getTangentCircle cx cy outerRadius startAngle sign False cornerRadius;
          eo = getTangentCircle cx cy outerRadius endAngle (- sign) False cornerRadius;
          si = getTangentCircle cx cy innerRadius startAngle sign True cornerRadius;
          ei = getTangentCircle cx cy innerRadius endAngle (- sign) True cornerRadius;
          innerArc = js_sub (js_sub (Some \<bar>startAngle - endAngle\<bar>) (theta si)) (theta ei);
          c = Some cornerRadius;
          cornerSweep = Some (of_bool (sign < 0));
          outerMainSweep = Some (of_bool (sign < 0));
          innerMainSweep = Some (of_bool (sign > 0));
          outer =
            [MoveTo (fst (lineTangency so)) (snd (lineTangency so)),
             ArcTo c c (Some 0) (Some 0) cornerSweep
               (fst (circleTangency so)) (snd (circleTangency so)),
             ArcTo (Some outerRadius) (Some outerRadius) (Some 0)
               (Some (of_bool (outerArc > 180))) outerMainSweep
               (fst (circleTangency eo)) (snd (circleTangency eo)),
             ArcTo c c (Some 0) (Some 0) cornerSweep
               (fst (lineTangency eo)) (snd (lineTangency eo))]
      in Some outerArc = js_sub (js_sub (Some \<bar>startAngle - endAngle\<bar>) (theta so)) (theta eo)
         \<and> innerArcAngle cx cy innerRadius cornerRadius startAngle endAngle = innerArc
         \<and> read_path (getSectorWithCorner cx cy innerRadius outerRadius cornerRadius
                      forceCornerRadius startAngle endAngle) =
           Some (outer @
             (if js_lt innerArc 0 then [LineTo (Some cx) (Some cy), ClosePath]
              else
                [LineTo (fst (lineTangency ei)) (snd (lineTangency ei)),
                 ArcTo c c (Some 0) (Some 0) cornerSweep
                   (fst (circleTangency ei)) (snd (circleTangency ei)),
                 ArcTo (Some innerRadius) (Some innerRadius) (Some 0)
                   (Some (of_bool (js_gt innerArc 180))) innerMainSweep
                   (fst (circleTangency si)) (snd (circleTangency si)),
                 ArcTo c c (Some 0) (Some 0) cornerSweep
                   (fst (lineTangency si)) (snd (lineTangency si)),
                 ClosePath]))
         \<and> (startAngle \<noteq> endAngle \<longrightarrow> innerMainSweep \<noteq> outerMainSweep))"
proof -
  have oa: "Some outerArc =
      js_sub (js_sub (Some \<bar>startAngle - endAngle\<bar>)
        (theta (getTangentCircle cx cy outerRadius startAngle
                  (mathSign (endAngle - startAngle)) False cornerRadius)))
        (theta (getTangentCircle cx cy outerRadius endAngle
                  (- mathSign (endAngle - startAngle)) False cornerRadius))"
    using assms(2) by (simp add: outerArcAngle_def Let_def)
  have ia: "innerArcAngle cx cy innerRadius cornerRadius startAngle endAngle =
      js_sub (js_sub (Some \<bar>startAngle - endAngle\<bar>)
        (theta (getTangentCircle cx cy innerRadius startAngle
                  (mathSign (endAngle - startAngle)) True cornerRadius)))
        (theta (getTangentCircle cx cy innerRadius endAngle
                  (- mathSign (endAngle - startAngle)) True cornerRadius))"
    by (simp add: innerArcAngle_def Let_def)
  have rd: "read_path (getSectorWithCorner cx cy innerRadius outerRadius cornerRadius
                      forceCornerRadius startAngle endAngle) =
     (let sign = mathSign (endAngle - startAngle);
          so = getTangentCircle cx cy outerRadius startAngle sign False cornerRadius;
          eo = getTangentCircle cx cy outerRadius endAngle (- sign) False cornerRadius;
          si = getTangentCircle cx cy innerRadius startAngle sign True cornerRadius;
          ei = getTangentCircle cx cy innerRadius endAngle (- sign) True cornerRadius;
          innerArc = innerArcAngle cx cy innerRadius cornerRadius startAngle endAngle;
          c = Some cornerRadius;
          f = Some (of_bool (sign < 0));
          outer =
            [MoveTo (fst (lineTangency so)) (snd (lineTangency so)),
             ArcTo c c (Some 0) (Some 0) f
               (fst (circleTangency so)) (snd (circleTangency so)),
             ArcTo (Some outerRadius) (Some outerRadius) (Some 0)
               (Some (of_bool (outerArc > 180))) f
               (fst (circleTangency eo)) (snd (circleTangency eo)),
             ArcTo c c (Some 0) (Some 0) f
               (fst (lineTangency eo)) (snd (lineTangency eo))]
      in Some (outer @
             (if js_lt innerArc 0 then [LineTo (Some cx) (Some cy), ClosePath]
              else
                [LineTo (fst (lineTangency ei)) (snd (lineTangency ei)),
                 ArcTo c c (Some 0) (Some 0) f
                   (fst (circleTangency ei)) (snd (circleTangency ei)),
                 ArcTo (Some innerRadius) (Some innerRadius) (Some 0)
                   (Some (of_bool (js_gt innerArc 180))) (Some (of_bool (sign > 0)))
                   (fst (circleTangency si)) (snd (circleTangency si)),
                 ArcTo c c (Some 0) (Some 0) f
                   (fst (lineTangency si)) (snd (lineTangency si)),
                 ClosePath])))"
    using assms by (simp add: read_getSectorWithCorner Let_def js_lt_def js_gt_def)
  have opp: "startAngle \<noteq> endAngle \<longrightarrow>
      (Some (of_bool (mathSign (endAngle - startAngle) > 0)) :: num)
        \<noteq> Some (of_bool (mathSign (endAngle - startAngle) < 0))"
    by (simp add: mathSign_def)
  show ?thesis
    unfolding Let_def using oa ia rd [unfolded Let_def ia] opp by simp
qed

text \<open>
  The theorem on both branches: at the radii 30 and 90, corner radius 30 and angles 0 and
  100 both arc angles are 40 and the inner boundary is rounded; at the radii 10 and 100,
  corner radius 30 and angles 60 and 0 the outer arc angle is positive, the inner one
  negative, and the path is closed through the center.
\<close>

theorem C6_inner_boundary_witness:
  "(\<exists>p1 p2 p3 p4 p5 p6 p7 p8 q1 q2 q3 q4 q5 q6 q7 q8.
      outerArcAngle 0 0 90 30 0 100 = Some 40
    \<and> innerArcAngle 0 0 30 30 0 100 = Some 40
    \<and> read_path (getSectorWithCorner 0 0 30 90 30 False 0 100) =
          Some [MoveTo p1 q1,
                ArcTo (Some 30) (Some 30) (Some 0) (Some 0) (Some 0) p2 q2,
                ArcTo (Some 90) (Some 90) (Some 0) (Some 0) (Some 0) p3 q3,
                ArcTo (Some 30) (Some 30) (Some 0) (Some 0) (Some 0) p4 q4,
                LineTo p5 q5,
                ArcTo (Some 30) (Some 30) (Some 0) (Some 0) (Some 0) p6 q6,
                ArcTo (Some 30) (Some 30) (Some 0) (Some 0) (Some 1) p7 q7,
                ArcTo (Some 30) (Some 30) (Some 0) (Some 0) (Some 0) p8 q8,
                ClosePath])
   \<and> (\<exists>outerArc innerArc p1 p2 p3 p4 q1 q2 q3 q4.
      outerArcAngle 0 0 100 30 60 0 = Some outerArc \<and> 0 < outerArc
    \<and> innerArcAngle 0 0 10 30 60 0 = Some innerArc \<and> innerArc < 0
    \<and> read_path (getSectorWithCorner 0 0 10 100 30 False 60 0) =
          Some [MoveTo p1 q1,
                ArcTo (Some 30) (Some 30) (Some 0) (Some 0) (Some 1) p2 q2,
                ArcTo (Some 100) (Some 100) (Some 0) (Some 0) (Some 1) p3 q3,
                ArcTo (Some 30) (Some 30) (Some 0) (Some 0) (Some 1) p4 q4,
                LineTo (Some 0) (Some 0),
                ClosePath])"
proof (intro conjI)
  have oa: "outerArcAngle 0 0 90 30 0 100 = Some 40"
    by (simp add: outerArcAngle_def Let_def theta_third_outer js_sub_def)
  have ia: "innerArcAngle 0 0 30 30 0 100 = Some 40"
    by (simp add: innerArcAngle_def Let_def theta_third_inner js_sub_def)
  have pos: "(0::real) < 30" and nonneg: "(0::real) \<le> 40" by simp_all
  show "\<exists>p1 p2 p3 p4 p5 p6 p7 p8 q1 q2 q3 q4 q5 q6 q7 q8.
      outerArcAngle 0 0 90 30 0 100 = Some 40
    \<and> innerArcAngle 0 0 30 30 0 100 = Some 40
    \<and> read_path (getSectorWithCorner 0 0 30 90 30 False 0 100) =
          Some [MoveTo p1 q1,
                ArcTo (Some 30) (Some 30) (Some 0) (Some 0) (Some 0) p2 q2,
                ArcTo (Some 90) (Some 90) (Some 0) (Some 0) (Some 0) p3 q3,
                ArcTo (Some 30) (Some 30) (Some 0) (Some 0) (Some 0) p4 q4,
                LineTo p5 q5,
                ArcTo (Some 30) (Some 30) (Some 0) (Some 0) (Some 0) p6 q6,
                ArcTo (Some 30) (Some 30) (Some 0) (Some 0) (Some 1) p7 q7,
                ArcTo (Some 30) (Some 30) (Some 0) (Some 0) (Some 0) p8 q8,
                ClosePath]"
    using C6_inner_boundary [OF pos oa nonneg, of False] oa ia
    by (simp add: Let_def js_lt_def js_gt_def mathSign_def theta_third_inner js_sub_def)
next
  obtain t where t: "\<And>a sg. theta (getTangentCircle 0 0 100 a sg False 30) = Some t"
      "0 < t" "t < 30"
    using theta_outer_small [of 0 0 0 0] 
    by (auto simp add: getTangentCircle_def Math_asin_div_def Let_def)
  obtain u where u: "\<And>a sg. theta (getTangentCircle 0 0 10 a sg True 30) = Some u" "30 < u"
    using theta_inner_large [of 0 0 0 0]
    by (auto simp add: getTangentCircle_def Math_asin_div_def Let_def)
  have oa: "outerArcAngle 0 0 100 30 60 0 = Some (60 - t - t)"
    by (simp add: outerArcAngle_def Let_def t js_sub_def)
  have ia: "innerArcAngle 0 0 10 30 60 0 = Some (60 - u - u)"
    by (simp add: innerArcAngle_def Let_def u js_sub_def)
  have pos: "(0::real) < 10" by simp
  have nonneg: "0 \<le> 60 - t - t" using t(3) by simp
  show "\<exists>outerArc innerArc p1 p2 p3 p4 q1 q2 q3 q4.
      outerArcAngle 0 0 100 30 60 0 = Some outerArc \<and> 0 < outerArc
    \<and> innerArcAngle 0 0 10 30 60 0 = Some innerArc \<and> innerArc < 0
    \<and> read_path (getSectorWithCorner 0 0 10 100 30 False 60 0) =
          Some [MoveTo p1 q1,
                ArcTo (Some 30) (Some 30) (Some 0) (Some 0) (Some 1) p2 q2,
                ArcTo (Some 100) (Some 100) (Some 0) (Some 0) (Some 1) p3 q3,
                ArcTo (Some 30) (Some 30) (Some 0) (Some 0) (Some 1) p4 q4,
                LineTo (Some 0) (Some 0),
                ClosePath]"
    using C6_inner_boundary [OF pos oa nonneg, of False] oa ia t(2,3) u(2)
    by (simp add: Let_def js_lt_def js_gt_def mathSign_def t(1) u(1) js_sub_def)
qed

section \<open>Every emitted path is one closed contour\<close>

lemma closed_getSectorPath:
  "\<exists>cmds. read_path (getSectorPath cx cy innerRadius outerRadius startAngle endAngle) = Some cmds
     \<and> closed_contour cmds \<and> last cmds = ClosePath"
  by (simp add: getSectorPath_def Let_def read_path_def digit_def polarToCartesian_def
      closed_contour_def)

lemma closed_circle:
  "closed_contour
     [MoveTo (Some sx) (Some sy),
      ArcBy (Some c) (Some c) (Some 0) (Some 0) (Some 1) (Some (c * 2)) (Some 0),
      ArcBy (Some c) (Some c) (Some 0) (Some 0) (Some 1) (Some (- c * 2)) (Some 0)]"
  by (simp add: closed_contour_def vertices_def js_add_def)

lemma read_circle:
  assumes "js_lt (outerArcAngle cx cy outerRadius c s e) 0"
  shows "\<exists>sx sy.
      lineTangency (getTangentCircle cx cy outerRadius s (mathSign (e - s)) False c)
        = (Some sx, Some sy)
    \<and> read_path (getSectorWithCorner cx cy innerRadius outerRadius c True s e) =
        Some [MoveTo (Some sx) (Some sy),
              ArcBy (Some c) (Some c) (Some 0) (Some 0) (Some 1) (Some (c * 2)) (Some 0),
              ArcBy (Some c) (Some c) (Some 0) (Some 0) (Some 1) (Some (- c * 2)) (Some 0)]"
proof -
  obtain t where "theta (getTangentCircle cx cy outerRadius s (mathSign (e - s)) False c) = Some t"
    using outerArc_negative_finite [OF assms] by blast
  then obtain sx sy where
    solt: "lineTangency (getTangentCircle cx cy outerRadius s (mathSign (e - s)) False c)
             = (Some sx, Some sy)"
    using theta_finite_points(1) by blast
  then show ?thesis
    using assms by (simp add: read_getSectorWithCorner Let_def)
qed

lemma closed_getSectorWithCorner:
  "\<exists>cmds. read_path (getSectorWithCorner cx cy innerRadius outerRadius c force s e) = Some cmds
     \<and> closed_contour cmds \<and> (last cmds = ClosePath \<or> force)"
proof (cases "js_lt (outerArcAngle cx cy outerRadius c s e) 0")
  case True
  show ?thesis
  proof (cases force)
    case True
    with \<open>js_lt (outerArcAngle cx cy outerRadius c s e) 0\<close> show ?thesis
      using read_circle [of cx cy outerRadius c s e innerRadius] closed_circle by auto
  next
    case False
    have "getSectorWithCorner cx cy innerRadius outerRadius c force s e
        = getSectorPath cx cy innerRadius outerRadius s e"
      using False \<open>js_lt (outerArcAngle cx cy outerRadius c s e) 0\<close>
      by (simp add: getSectorWithCorner_def Let_def)
    then show ?thesis
      using closed_getSectorPath [of cx cy innerRadius outerRadius s e] by auto
  qed
next
  case False
  then show ?thesis
    by (simp add: read_getSectorWithCorner Let_def closed_contour_def)
qed

text \<open>
  C9. Every path the facade returns reads as a single closed contour: it ends with the
  close command \<open>Z\<close>, or, which only happens with \<open>forceCornerRadius\<close>, its last arc ends
  at the point of its initial move-to.
\<close>

theorem C9_closed_contour:
  assumes "Sector_render cx cy innerRadius outerRadius cornerRadius forceCornerRadius
             startAngle endAngle = Some p"
  shows "\<exists>cmds. read_path p = Some cmds \<and> closed_contour cmds
           \<and> (last cmds = ClosePath \<or> forceCornerRadius)"
proof -
  let ?cr = "getPercentValue cornerRadius (outerRadius - innerRadius) 0 True"
  have "p = getSectorPath cx cy innerRadius outerRadius startAngle endAngle
      \<or> p = getSectorWithCorner cx cy innerRadius outerRadius
              (min ?cr ((outerRadius - innerRadius) / 2)) forceCornerRadius startAngle endAngle"
    using assms unfolding Sector_render_def Let_def by (auto split: if_splits)
  then show ?thesis
    using closed_getSectorPath closed_getSectorWithCorner by metis
qed

text \<open>The theorem on a sharp-edged path and on the full-circle fallback.\<close>

theorem C9_closed_contour_witness:
  "(\<exists>cmds. read_path (getSectorPath 0 0 0 100 0 90) = Some cmds \<and> closed_contour cmds
      \<and> last cmds = ClosePath)
   \<and> (\<exists>cmds. read_path (getSectorWithCorner 0 0 0 100 50 True 0 90) = Some cmds
      \<and> closed_contour cmds)"
proof -
  have a: "Sector_render 0 0 0 100 (Absolute 0) False 0 90 = Some (getSectorPath 0 0 0 100 0 90)"
    by (simp add: Sector_render_def getPercentValue_def Let_def)
  have b: "Sector_render 0 0 0 100 (Absolute 50) True 0 90 =
      Some (getSectorWithCorner 0 0 0 100 50 True 0 90)"
    by (simp add: Sector_render_def getPercentValue_def Let_def)
  show ?thesis
    using C9_closed_contour [OF a] C9_closed_contour [OF b] by simp
qed

section \<open>The inverse sine stays in its domain\<close>

lemma theta_defined:
  assumes "c * (if ext then 1 else - 1) + radius \<noteq> 0"
      and "- 1 \<le> c / (c * (if ext then 1 else - 1) + radius)"
      and "c / (c * (if ext then 1 else - 1) + radius) \<le> 1"
  shows "\<exists>t. theta (getTangentCircle cx cy radius a sg ext c) = Some t"
  using assms by (simp add: getTangentCircle_def Math_asin_div_def Let_def)

lemma no_nan_getSectorPath:
  "Num None \<notin> set (getSectorPath cx cy innerRadius outerRadius s e)"
  by (simp add: getSectorPath_def Let_def polarToCartesian_def)

lemma no_nan_getSectorWithCorner:
  assumes "theta (getTangentCircle cx cy outerRadius s (mathSign (e - s)) False c) = Some t1"
      and "theta (getTangentCircle cx cy outerRadius e (- mathSign (e - s)) False c) = Some t2"
      and "theta (getTangentCircle cx cy innerRadius s (mathSign (e - s)) True c) = Some t3"
      and "theta (getTangentCircle cx cy innerRadius e (- mathSign (e - s)) True c) = Some t4"
  shows "Num None \<notin> set (getSectorWithCorner cx cy innerRadius outerRadius c force s e)"
proof -
  obtain a1 b1 a2 b2 where
    so: "lineTangency (getTangentCircle cx cy outerRadius s (mathSign (e - s)) False c)
           = (Some a1, Some b1)"
        "circleTangency (getTangentCircle cx cy outerRadius s (mathSign (e - s)) False c)
           = (Some a2, Some b2)"
    using theta_finite_points [OF assms(1)] by blast
  obtain a3 b3 a4 b4 where
    eo: "lineTangency (getTangentCircle cx cy outerRadius e (- mathSign (e - s)) False c)
           = (Some a3, Some b3)"
        "circleTangency (getTangentCircle cx cy outerRadius e (- mathSign (e - s)) False c)
           = (Some a4, Some b4)"
    using theta_finite_points [OF assms(2)] by blast
  obtain a5 b5 a6 b6 where
    si: "lineTangency (getTangentCircle cx cy innerRadius s (mathSign (e - s)) True c)
           = (Some a5, Some b5)"
        "circleTangency (getTangentCircle cx cy innerRadius s (mathSign (e - s)) True c)
           = (Some a6, Some b6)"
    using theta_finite_points [OF assms(3)] by blast
  obtain a7 b7 a8 b8 where
    ei: "lineTangency (getTangentCircle cx cy innerRadius e (- mathSign (e - s)) True c)
           = (Some a7, Some b7)"
        "circleTangency (getTangentCircle cx cy innerRadius e (- mathSign (e - s)) True c)
           = (Some a8, Some b8)"
    using theta_finite_points [OF assms(4)] by blast
  show ?thesis
    unfolding getSectorWithCorner_def Let_def
    using no_nan_getSectorPath [of cx cy innerRadius outerRadius s e]
    by (simp add: so eo si ei)
qed

text \<open>
  C10. When the facade reaches the Rounded-Edge Path Builder with
  \<open>0 \<le> innerRadius \<le> outerRadius\<close>, the corner radius \<open>c\<close> it passes is positive and at
  most half the thickness, so in the outer solver calls \<open>c \<le> outerRadius - c\<close> and in the
  inner ones \<open>c \<le> innerRadius + c\<close>: the argument of the inverse sine lies in \<open>[0, 1]\<close>
  in all four calls, \<open>theta\<close> is defined in each, and the path holds no \<^verbatim>\<open>NaN\<close>.
\<close>

theorem C10_asin_argument_in_domain:
  assumes "0 \<le> innerRadius" and "innerRadius \<le> outerRadius" and "startAngle \<noteq> endAngle"
      and "cr = getPercentValue cornerRadius (outerRadius - innerRadius) 0 True"
      and "cr > 0" and "\<bar>startAngle - endAngle\<bar> < 360"
      and "c = min cr ((outerRadius - innerRadius) / 2)"
      and "sign = mathSign (endAngle - startAngle)"
  shows "Sector_render cx cy innerRadius outerRadius cornerRadius forceCornerRadius
           startAngle endAngle
         = Some (getSectorWithCorner cx cy innerRadius outerRadius c forceCornerRadius
                   startAngle endAngle)
       \<and> 0 < c \<and> c \<le> (outerRadius - innerRadius) / 2
       \<and> c \<le> outerRadius - c
       \<and> 0 \<le> c / (c * (- 1) + outerRadius) \<and> c / (c * (- 1) + outerRadius) \<le> 1
       \<and> c \<le> innerRadius + c
       \<and> 0 \<le> c / (c * 1 + innerRadius) \<and> c / (c * 1 + innerRadius) \<le> 1
       \<and> theta (getTangentCircle cx cy outerRadius startAngle sign False c) \<noteq> None
       \<and> theta (getTangentCircle cx cy outerRadius endAngle (- sign) False c) \<noteq> None
       \<and> theta (getTangentCircle cx cy innerRadius startAngle sign True c) \<noteq> None
       \<and> theta (getTangentCircle cx cy innerRadius endAngle (- sign) True c) \<noteq> None
       \<and> Num None \<notin> set (getSectorWithCorner cx cy innerRadius outerRadius c
                              forceCornerRadius startAngle endAngle)"
proof -
  have bound: "cr \<le> outerRadius - innerRadius"
    using assms(2) unfolding assms(4) getPercentValue_def Let_def by simp
  have cpos: "0 < c" using assms(5) bound unfolding assms(7) by simp
  have chalf: "c \<le> (outerRadius - innerRadius) / 2" unfolding assms(7) by (rule min.cobounded2)
  have outer_le: "c \<le> outerRadius - c" using chalf assms(1) by simp
  have outer_pos: "0 < c * (- 1) + outerRadius" using outer_le cpos by simp
  have inner_pos: "0 < c * 1 + innerRadius" using cpos assms(1) by simp
  have outer_ratio: "0 \<le> c / (c * (- 1) + outerRadius)" "c / (c * (- 1) + outerRadius) \<le> 1"
    using outer_pos cpos outer_le by (simp_all add: divide_le_eq_1_pos)
  have inner_ratio: "0 \<le> c / (c * 1 + innerRadius)" "c / (c * 1 + innerRadius) \<le> 1"
    using inner_pos cpos assms(1) by (simp_all add: divide_le_eq_1_pos)
  have render: "Sector_render cx cy innerRadius outerRadius cornerRadius forceCornerRadius
           startAngle endAngle
         = Some (getSectorWithCorner cx cy innerRadius outerRadius c forceCornerRadius
                   startAngle endAngle)"
    using assms(2,3,5,6) unfolding assms(4,7) Sector_render_def by (simp add: Let_def)
  obtain t1 where t1: "theta (getTangentCircle cx cy outerRadius startAngle sign False c) = Some t1"
    using theta_defined [of c False outerRadius] outer_pos outer_ratio by force
  obtain t2 where t2: "theta (getTangentCircle cx cy outerRadius endAngle (- sign) False c) = Some t2"
    using theta_defined [of c False outerRadius] outer_pos outer_ratio by force
  obtain t3 where t3: "theta (getTangentCircle cx cy innerRadius startAngle sign True c) = Some t3"
    using theta_defined [of c True innerRadius] inner_pos inner_ratio by force
  obtain t4 where t4: "theta (getTangentCircle cx cy innerRadius endAngle (- sign) True c) = Some t4"
    using theta_defined [of c True innerRadius] inner_pos inner_ratio by force
  have nonan: "Num None \<notin> set (getSectorWithCorner cx cy innerRadius outerRadius c
                              forceCornerRadius startAngle endAngle)"
    using no_nan_getSectorWithCorner [OF t1 [unfolded assms(8)] t2 [unfolded assms(8)]
        t3 [unfolded assms(8)] t4 [unfolded assms(8)]] .
  show ?thesis
    using render cpos chalf outer_le outer_ratio inner_ratio t1 t2 t3 t4 nonan assms(1)
    by simp
qed

text \<open>The theorem at the radii 30 and 90 with a corner radius of 80 percent.\<close>

theorem C10_asin_argument_in_domain_witness:
  "Sector_render 0 0 30 90 (Percent 80) False 0 90 =
     Some (getSectorWithCorner 0 0 30 90 30 False 0 90)
   \<and> theta (getTangentCircle 0 0 90 0 1 False 30) \<noteq> None
   \<and> theta (getTangentCircle 0 0 30 90 (- 1) True 30) \<noteq> None
   \<and> Num None \<notin> set (getSectorWithCorner 0 0 30 90 30 False 0 90)"
  using C10_asin_argument_in_domain [where innerRadius = 30 and outerRadius = 90
      and startAngle = 0 and endAngle = 90 and cornerRadius = "Percent 80" and cr = 48
      and c = 30 and sign = 1 and cx = 0 and cy = 0 and forceCornerRadius = False]
  by (simp add: getPercentValue_def mathSign_def)

section \<open>The angular magnitude the builders use\<close>






end
